theory Spec2Isabelle
  imports Complex_Main "HOL-Library.Monad_Syntax"
begin

section \<open>WeightingPotentialReaderModule of Allpix Squared\<close>

text \<open>
  A shallow embedding of \<^verbatim>\<open>src/modules/WeightingPotentialReader/WeightingPotentialReaderModule.cpp\<close>.

  Numbers. The value of a finite C++ \<^verbatim>\<open>double\<close> is a \<^typ>\<open>real\<close>, and the real \<open>0\<close> stands for
  \<^verbatim>\<open>+0.0\<close>. Overflow of finite operands is not modelled.
  \<^item> In the pad potential the operations \<^verbatim>\<open>+\<close>, \<^verbatim>\<open>-\<close>, \<^verbatim>\<open>*\<close>, \<^verbatim>\<open>std::sqrt\<close> and \<^verbatim>\<open>std::atan\<close> are the
    exact ones: the rounding of the library's \<^verbatim>\<open>atan\<close> is not fixed by IEEE 754. Division by
    zero is followed as IEEE 754 has it, through the infinities and the NaN, since the
    closure is evaluated on the plane \<open>local_z = 0\<close>.
  \<^item> Everywhere else (the thickness domain and the field scale of \<^verbatim>\<open>init\<close>, the thickness
    check of \<^verbatim>\<open>check_detector_match\<close>) the sums, differences and quotients of doubles are
    those IEEE 754 fixes: rounded to the nearest double, ties to even (\<open>rnd\<close> below).
\<close>

subsection \<open>Geometry vectors\<close>

text \<open>\<^verbatim>\<open>ROOT::Math::XYVector\<close> / \<^verbatim>\<open>XYPoint\<close> and \<^verbatim>\<open>ROOT::Math::XYZPoint\<close> / \<^verbatim>\<open>XYZVector\<close>, with
  their accessors \<^verbatim>\<open>x()\<close>, \<^verbatim>\<open>y()\<close>, \<^verbatim>\<open>z()\<close>.\<close>

record xy_vector =
  x_xy :: real
  y_xy :: real

record xyz_point =
  x_xyz :: real
  y_xyz :: real
  z_xyz :: real

subsection \<open>Arithmetic of doubles\<close>

text \<open>
  The value of a double that may be infinite or a NaN, for the quotients inside the pad
  potential. \<open>ieee_div a b\<close> is \<^verbatim>\<open>a / b\<close> for a finite divisor \<open>b\<close>: a finite non-zero value
  over zero is the infinity of its sign, zero over zero is a NaN, an infinity over a finite
  value is the infinity with the product of the signs. A divisor that is zero is \<^verbatim>\<open>+0.0\<close>: the
  divisors of the closure are \<open>local_z\<close> and \<open>2nd \<plusminus> local_z\<close>, and a sum or difference of
  doubles that comes out zero is \<^verbatim>\<open>+0.0\<close> unless an input already is \<^verbatim>\<open>-0.0\<close>. \<open>ieee_atan\<close> is \<^verbatim>\<open>std::atan\<close>:
  \<open>\<plusminus>\<pi>/2\<close> at the infinities, a NaN (\<open>None\<close>) at a NaN.
\<close>

datatype ieee = Finite real | PlusInf | MinusInf | NotANumber

definition ieee_div :: "ieee \<Rightarrow> real \<Rightarrow> ieee" where
  "ieee_div a b =
     (case a of
        NotANumber \<Rightarrow> NotANumber
      | PlusInf \<Rightarrow> (if b < 0 then MinusInf else PlusInf)
      | MinusInf \<Rightarrow> (if b < 0 then PlusInf else MinusInf)
      | Finite v \<Rightarrow>
          (if b \<noteq> 0 then Finite (v / b)
           else if 0 < v then PlusInf
           else if v < 0 then MinusInf
           else NotANumber))"

definition ieee_atan :: "ieee \<Rightarrow> real option" where
  "ieee_atan a =
     (case a of
        Finite v \<Rightarrow> Some (arctan v)
      | PlusInf \<Rightarrow> Some (pi / 2)
      | MinusInf \<Rightarrow> Some (- (pi / 2))
      | NotANumber \<Rightarrow> None)"

text \<open>
  Rounding to a double. \<open>round_to_even q\<close> is the integer nearest to \<open>q\<close>, the even one of the
  two when \<open>q\<close> lies half way. \<open>rnd v\<close> keeps 53 significant bits of \<open>v\<close>: with
  \<open>2\<^sup>k \<le> |v| < 2\<^sup>k\<^sup>+\<^sup>1\<close> the doubles around \<open>v\<close> are the multiples of \<open>2\<^sup>k\<^sup>-\<^sup>5\<^sup>2\<close>, and of \<open>2\<^sup>-\<^sup>1\<^sup>0\<^sup>7\<^sup>4\<close>
  in the subnormal range.
\<close>

definition round_to_even :: "real \<Rightarrow> int" where
  "round_to_even q =
     (let n = \<lfloor>q\<rfloor>; r = q - of_int n
      in if r < 1 / 2 then n
         else if 1 / 2 < r then n + 1
         else if even n then n else n + 1)"

definition rnd :: "real \<Rightarrow> real" where
  "rnd v =
     (if v = 0 then 0
      else (let e = max (\<lfloor>log 2 \<bar>v\<bar>\<rfloor> - 52) (- 1074)
            in of_int (round_to_even (v / 2 powi e)) * 2 powi e))"

text \<open>A quotient of two doubles that is stored as data: rounded, and \<open>None\<close> (an infinity
  or a NaN) where the divisor is zero.\<close>

definition fdiv :: "real \<Rightarrow> real \<Rightarrow> real option" where
  "fdiv a b = (if b = 0 then None else Some (rnd (a / b)))"

text \<open>\<^verbatim>\<open>std::numeric_limits<double>::epsilon()\<close>, which is \<open>2\<^sup>-\<^sup>5\<^sup>2\<close>.\<close>

definition epsilon :: real where
  "epsilon = 1 / 2 ^ 52"

text \<open>
  \<^verbatim>\<open>std::fmod(x, y)\<close>: the value \<open>x - n * y\<close> where \<open>n\<close> is the quotient \<open>x / y\<close> with its
  fractional part cut off (truncation towards zero); the C standard makes this result exact,
  so no rounding is lost here. For \<open>y = 0\<close> the result is a NaN: \<open>None\<close>.
\<close>

definition trunc :: "real \<Rightarrow> int" where
  "trunc q = (if 0 \<le> q then \<lfloor>q\<rfloor> else \<lceil>q\<rceil>)"

definition fmod :: "real \<Rightarrow> real \<Rightarrow> real option" where
  "fmod x y = (if y = 0 then None else Some (x - of_int (trunc (x / y)) * y))"

text \<open>The comparison \<^verbatim>\<open>v > std::numeric_limits<double>::epsilon()\<close>; every comparison with a
  NaN is false.\<close>

definition exceeds_epsilon :: "real option \<Rightarrow> bool" where
  "exceeds_epsilon v = (case v of None \<Rightarrow> False | Some r \<Rightarrow> r > epsilon)"

subsection \<open>The pad potential (lines 77 to 113)\<close>

text \<open>The innermost lambda \<^verbatim>\<open>arctan\<close>:
  \<^verbatim>\<open>std::atan(a * b / c / std::sqrt(a * a + b * b + c * c))\<close>, the two divisions from left to
  right.\<close>

definition arctan_lam :: "real \<Rightarrow> real \<Rightarrow> real \<Rightarrow> real option" where
  "arctan_lam a b c =
     ieee_atan (ieee_div (ieee_div (Finite (a * b)) c) (sqrt (a * a + b * b + c * c)))"

text \<open>The lambda \<^verbatim>\<open>f\<close>, which captures \<^verbatim>\<open>implant\<close>. The result is \<open>None\<close> when one of the four
  terms is a NaN, as the sum then is.\<close>

definition f_lam :: "xy_vector \<Rightarrow> real \<Rightarrow> real \<Rightarrow> real \<Rightarrow> real option" where
  "f_lam implant x y u =
     (let x1 = x - x_xy implant / 2;
          x2 = x + x_xy implant / 2;
          y1 = y - y_xy implant / 2;
          y2 = y + y_xy implant / 2
      in do { t1 \<leftarrow> arctan_lam x1 y1 u;
              t2 \<leftarrow> arctan_lam x2 y2 u;
              t3 \<leftarrow> arctan_lam x1 y2 u;
              t4 \<leftarrow> arctan_lam x2 y1 u;
              Some (t1 + t2 - t3 - t4) })"

text \<open>
  The loop \<^verbatim>\<open>for(int n = 1; n <= 100; n++) sum += f(..., 2 * n * d - local_z) - f(..., 2 * n * d + local_z)\<close>
  as a recursion on the loop counter, the running \<^verbatim>\<open>sum\<close> as an accumulator. Once a term is a
  NaN the sum is a NaN to the end of the loop: \<open>None\<close>.
\<close>

function series_loop ::
  "xy_vector \<Rightarrow> xyz_point \<Rightarrow> real \<Rightarrow> real \<Rightarrow> int \<Rightarrow> real \<Rightarrow> real option" where
  "series_loop implant pos d local_z n sum_v =
     (if n \<le> 100 then
        do { a \<leftarrow> f_lam implant (x_xyz pos) (y_xyz pos) (2 * of_int n * d - local_z);
             b \<leftarrow> f_lam implant (x_xyz pos) (y_xyz pos) (2 * of_int n * d + local_z);
             series_loop implant pos d local_z (n + 1) (sum_v + (a - b)) }
      else Some sum_v)"
  by pat_completeness auto
termination
  by (relation "measure (\<lambda>(implant, pos, d, local_z, n, sum_v). nat (101 - n))") auto

text \<open>The closure returned by \<^verbatim>\<open>get_pad_potential_function\<close>; it captures \<^verbatim>\<open>implant\<close> and
  \<^verbatim>\<open>thickness_domain\<close> (a \<^verbatim>\<open>std::pair\<close>: \<open>fst\<close> is \<^verbatim>\<open>first\<close>, \<open>snd\<close> is \<^verbatim>\<open>second\<close>).\<close>

definition pad_potential :: "xy_vector \<Rightarrow> real \<times> real \<Rightarrow> xyz_point \<Rightarrow> real option" where
  "pad_potential implant thickness_domain pos =
     (let d = snd thickness_domain - fst thickness_domain;
          local_z = - z_xyz pos + snd thickness_domain
      in do { sum_v \<leftarrow> series_loop implant pos d local_z 1 0;
              f0 \<leftarrow> f_lam implant (x_xyz pos) (y_xyz pos) local_z;
              Some (1 / (2 * pi) * (f0 - sum_v)) })"

subsection \<open>The pad potential as the specification words it\<close>

text \<open>One arctangent term, \<open>atan(\<Delta>x \<cdot> \<Delta>y / (u \<cdot> sqrt(\<Delta>x\<^sup>2 + \<Delta>y\<^sup>2 + u\<^sup>2)))\<close>.\<close>

definition atan_term_spec :: "real \<Rightarrow> real \<Rightarrow> real \<Rightarrow> real" where
  "atan_term_spec dx dy u = arctan (dx * dy / (u * sqrt (dx\<^sup>2 + dy\<^sup>2 + u\<^sup>2)))"

text \<open>The elementary function: four terms over the corners of the pad, signs \<open>+, +, -, -\<close>.\<close>

definition f_spec :: "xy_vector \<Rightarrow> real \<Rightarrow> real \<Rightarrow> real \<Rightarrow> real" where
  "f_spec implant x y u =
     atan_term_spec (x - x_xy implant / 2) (y - y_xy implant / 2) u
   + atan_term_spec (x + x_xy implant / 2) (y + y_xy implant / 2) u
   - atan_term_spec (x - x_xy implant / 2) (y + y_xy implant / 2) u
   - atan_term_spec (x + x_xy implant / 2) (y - y_xy implant / 2) u"






subsection \<open>Exceptions and the log\<close>

text \<open>
  The C++ exceptions that reach the module. \<open>InvalidValueError key reason\<close> is
  \<^verbatim>\<open>InvalidValueError(config_, key, reason)\<close>; \<open>MissingKeyError\<close> and \<open>InvalidKeyError\<close> are the
  other exceptions of the configuration; \<open>invalid_argument\<close>, \<open>runtime_error\<close> (each with its
  \<^verbatim>\<open>what()\<close>) and \<open>bad_alloc\<close> are the three standard classes \<^verbatim>\<open>read_init_field\<close> catches;
  \<open>other_exception\<close> is any exception of another class.
\<close>

datatype exn =
    InvalidValueError string string
  | MissingKeyError string
  | InvalidKeyError string
  | invalid_argument string
  | runtime_error string
  | bad_alloc
  | other_exception string

text \<open>The \<^verbatim>\<open>LOG(level) << ...\<close> statements, one constructor for each statement of the file, with
  the numbers it prints.\<close>

datatype log_level = TRACE | INFO | WARNING

datatype log_message =
    AddingPadPotential
  | CalculatingPlaneCondenser
  | CreatingOutputPlots
  | FetchingInitFile
  | SetWeightingField nat nat nat
  | ThicknessMismatch real real
  | MapSizeMismatch real real real real

type_synonym log_entry = "log_level \<times> log_message"

subsection \<open>Configuration, detector model, field data\<close>

text \<open>
  \<^verbatim>\<open>Configuration\<close> is declared outside these sources. Each lookup the module makes is a field
  that holds the outcome of that lookup: the value, or the exception the lookup throws.
  In order: \<^verbatim>\<open>get<std::string>("model")\<close>, \<^verbatim>\<open>getPath("file_name", true)\<close>,
  \<^verbatim>\<open>get<bool>("output_plots", false)\<close>, \<^verbatim>\<open>get<size_t>("output_plots_steps", 500)\<close> and
  \<^verbatim>\<open>get<XYPoint>("output_plots_position", XYPoint(0, 0))\<close>.
\<close>

record configuration =
  get_model :: "exn + string"
  getPath_file_name :: "exn + string"
  get_output_plots :: "exn + bool"
  get_output_plots_steps :: "exn + nat"
  get_output_plots_position :: "exn + xy_vector"

text \<open>The geometry queries of \<^verbatim>\<open>DetectorModel\<close> that the module calls.\<close>

record detector_model =
  getSensorCenter :: xyz_point
  getSensorSize :: xyz_point
  getPixelSize :: xy_vector
  getImplantSize :: xy_vector

text \<open>
  \<^verbatim>\<open>FieldData<double>\<close>, the tuple the module reads with \<^verbatim>\<open>std::get<0>\<close>, \<^verbatim>\<open>std::get<1>\<close> and
  \<^verbatim>\<open>std::get<2>\<close>: the shared pointer to the table of samples (here the address of the table
  in the store of tables), the three grid sizes, the three physical dimensions. A
  \<^verbatim>\<open>std::array\<close> of three elements is a triple, read with \<open>at0\<close>, \<open>at1\<close>, \<open>at2\<close>.
\<close>

type_synonym 'a array3 = "'a \<times> 'a \<times> 'a"

definition at0 :: "'a array3 \<Rightarrow> 'a" where "at0 a = fst a"
definition at1 :: "'a array3 \<Rightarrow> 'a" where "at1 a = fst (snd a)"
definition at2 :: "'a array3 \<Rightarrow> 'a" where "at2 a = snd (snd a)"

record field_data =
  get0 :: nat
  get1 :: "nat array3"
  get2 :: "real array3"

subsection \<open>The detector\<close>

datatype field_type = NONE | CONSTANT | LINEAR | GRID | CUSTOM

text \<open>What a detector holds as its weighting potential: a grid (table, sizes, scales, offset,
  thickness domain) or a function (callable, thickness domain, field type). A scale is a
  quotient of doubles, so it is \<open>None\<close> where the pixel size is zero.\<close>

datatype installed_field =
    GridField nat "nat array3" "real option \<times> real option" "real \<times> real" "real \<times> real"
  | FunctionField "xyz_point \<Rightarrow> real option" "real \<times> real" field_type

record detector =
  getModel :: detector_model
  weighting_potential :: "installed_field option"

text \<open>Modelled from the spec: \<^verbatim>\<open>Detector::setWeightingPotentialGrid\<close> and
  \<^verbatim>\<open>Detector::setWeightingPotentialFunction\<close> are not among the sources. The specification
  (sections 3 and 4.5): a field is installed as a data, scale, offset and domain tuple or
  as a function, domain and field-kind tag; a later installation replaces the prior one.\<close>

definition setWeightingPotentialGrid ::
  "nat \<Rightarrow> nat array3 \<Rightarrow> real option \<times> real option \<Rightarrow> real \<times> real \<Rightarrow> real \<times> real
     \<Rightarrow> detector \<Rightarrow> detector" where
  "setWeightingPotentialGrid field sizes scales offset thickness_domain det =
     det\<lparr>weighting_potential := Some (GridField field sizes scales offset thickness_domain)\<rparr>"

definition setWeightingPotentialFunction ::
  "(xyz_point \<Rightarrow> real option) \<Rightarrow> real \<times> real \<Rightarrow> field_type \<Rightarrow> detector \<Rightarrow> detector" where
  "setWeightingPotentialFunction function thickness_domain type det =
     det\<lparr>weighting_potential := Some (FunctionField function thickness_domain type)\<rparr>"

fun field_thickness_domain :: "installed_field \<Rightarrow> real \<times> real" where
  "field_thickness_domain (GridField field sizes scales offset thickness_domain) = thickness_domain"
| "field_thickness_domain (FunctionField function thickness_domain type) = thickness_domain"

text \<open>Modelled from the spec: \<^verbatim>\<open>Detector::getWeightingPotential\<close> is not among the sources. The
  specification (section 4.5): the query takes a position and a pixel index and returns the
  value, dispatching to whichever representation was installed; querying a field that was
  never installed fails with a \<^verbatim>\<open>FieldNotConfiguredError\<close>. How an installed representation
  is evaluated (the interpolation in the grid, the coordinates relative to the pixel) is
  left to the detector: the parameter \<open>evaluate\<close>.\<close>

datatype field_error = FieldNotConfiguredError

definition getWeightingPotential ::
  "(installed_field \<Rightarrow> xyz_point \<Rightarrow> nat \<times> nat \<Rightarrow> real option)
     \<Rightarrow> detector \<Rightarrow> xyz_point \<Rightarrow> nat \<times> nat \<Rightarrow> field_error + real option" where
  "getWeightingPotential evaluate det pos pixel =
     (case weighting_potential det of
        None \<Rightarrow> Inl FieldNotConfiguredError
      | Some field \<Rightarrow> Inr (evaluate field pos pixel))"

subsection \<open>The field parser shared by all module instances (line 177)\<close>

text \<open>
  The outcome of reading and parsing the file at a path: the exception the parser throws, or
  the samples, the grid sizes and the physical dimensions it read.
\<close>

type_synonym files = "string \<Rightarrow> exn + (real list \<times> nat array3 \<times> real array3)"

text \<open>
  The state of the static member \<^verbatim>\<open>field_parser_\<close>: the fields loaded so far, by file name;
  the store of the tables it allocated, by address, with the next free address; and a count
  of the parses it ran, which the program does not keep and which is here to state how
  often a file is parsed.
\<close>

record field_parser =
  field_map :: "string \<rightharpoonup> field_data"
  tables :: "nat \<rightharpoonup> real list"
  next_table :: nat
  parse_count :: nat

text \<open>Modelled from the spec: \<^verbatim>\<open>FieldParser::get_by_file_name\<close> is not among the sources. The
  specification (sections 3 and 4.3): a field is loaded at most once for each distinct file
  path, every caller that names the same path shares the result, and the table is never
  changed after the load. A parse that throws stores nothing.\<close>

definition get_by_file_name ::
  "files \<Rightarrow> string \<Rightarrow> field_parser \<Rightarrow> (exn + field_data) \<times> field_parser" where
  "get_by_file_name fs file_name ps =
     (case field_map ps file_name of
        Some field_data \<Rightarrow> (Inr field_data, ps)
      | None \<Rightarrow>
          (case fs file_name of
             Inl e \<Rightarrow> (Inl e, ps\<lparr>parse_count := parse_count ps + 1\<rparr>)
           | Inr (samples, sizes, dimensions) \<Rightarrow>
               (let field_data = \<lparr>get0 = next_table ps, get1 = sizes, get2 = dimensions\<rparr>
                in (Inr field_data,
                    ps\<lparr>field_map := (field_map ps)(file_name \<mapsto> field_data),
                       tables := (tables ps)(next_table ps \<mapsto> samples),
                       next_table := next_table ps + 1,
                       parse_count := parse_count ps + 1\<rparr>))))"

subsection \<open>check_detector_match (lines 207 to 232)\<close>

text \<open>
  The function returns nothing and has no \<^verbatim>\<open>throw\<close>: its effect is the warnings it logs. The
  first argument is the pointer \<^verbatim>\<open>detector_->getModel()\<close>, \<open>None\<close> for \<^verbatim>\<open>nullptr\<close>.
\<close>

definition check_detector_match ::
  "detector_model option \<Rightarrow> real array3 \<Rightarrow> real \<times> real \<Rightarrow> log_entry list" where
  "check_detector_match model dimensions thickness_domain =
     (let xpixsz = at0 dimensions;
          ypixsz = at1 dimensions;
          thickness = at2 dimensions
      in case model of
           None \<Rightarrow> []
         | Some m \<Rightarrow>
             (let eff_thickness = rnd (snd thickness_domain - fst thickness_domain)
              in (if \<bar>rnd (thickness - eff_thickness)\<bar> > epsilon
                  then [(WARNING, ThicknessMismatch thickness eff_thickness)] else [])
               @ (if exceeds_epsilon (fmod xpixsz (x_xy (getPixelSize m)))
                     \<or> exceeds_epsilon (fmod ypixsz (y_xy (getPixelSize m)))
                  then [(WARNING, MapSizeMismatch xpixsz ypixsz
                                    (x_xy (getPixelSize m)) (y_xy (getPixelSize m)))]
                  else [])))"

subsection \<open>read_init_field (lines 178 to 202)\<close>

text \<open>The three \<^verbatim>\<open>catch\<close> clauses; an exception of any other class passes through.\<close>

fun read_init_field_catch :: "exn \<Rightarrow> exn" where
  "read_init_field_catch (invalid_argument what) = InvalidValueError ''file_name'' what"
| "read_init_field_catch (runtime_error what) = InvalidValueError ''file_name'' what"
| "read_init_field_catch bad_alloc = InvalidValueError ''file_name'' ''file too large''"
| "read_init_field_catch e = e"

text \<open>
  The module instance is its configuration and its detector; the parser is shared, so its
  state goes in and comes out. The result is the field data or the exception, the parser's
  state and the lines logged. The detector's model is passed as a non-null pointer: \<^verbatim>\<open>init\<close>
  has dereferenced it before the call.
\<close>

definition read_init_field ::
  "configuration \<Rightarrow> detector \<Rightarrow> real \<times> real \<Rightarrow> files \<Rightarrow> field_parser
     \<Rightarrow> (exn + field_data) \<times> field_parser \<times> log_entry list" where
  "read_init_field config det thickness_domain fs ps =
     (case getPath_file_name config of
        Inl e \<Rightarrow> (Inl (read_init_field_catch e), ps, [(TRACE, FetchingInitFile)])
      | Inr file_name \<Rightarrow>
          (case get_by_file_name fs file_name ps of
             (Inl e, ps') \<Rightarrow> (Inl (read_init_field_catch e), ps', [(TRACE, FetchingInitFile)])
           | (Inr field_data, ps') \<Rightarrow>
               (Inr field_data, ps',
                [(TRACE, FetchingInitFile)]
                @ check_detector_match (Some (getModel det)) (get2 field_data) thickness_domain
                @ [(INFO, SetWeightingField (at0 (get1 field_data)) (at1 (get1 field_data))
                                            (at2 (get1 field_data)))])))"

subsection \<open>create_output_plots (lines 115 to 171)\<close>

text \<open>
  The histograms are ROOT objects written to the module's file; they, and the progress lines
  of the plotting loop, are left out. What remains is the two configuration lookups, each of
  which may throw, and the first log line. The detector is only read.
\<close>

definition create_output_plots :: "configuration \<Rightarrow> (exn + unit) \<times> log_entry list" where
  "create_output_plots config =
     (case get_output_plots_steps config of
        Inl e \<Rightarrow> (Inl e, [(TRACE, CreatingOutputPlots)])
      | Inr steps \<Rightarrow>
          (case get_output_plots_position config of
             Inl e \<Rightarrow> (Inl e, [(TRACE, CreatingOutputPlots)])
           | Inr position \<Rightarrow> (Inr (), [(TRACE, CreatingOutputPlots)])))"

subsection \<open>get_pad_potential_function and init (lines 37 to 113)\<close>

definition get_pad_potential_function ::
  "xy_vector \<Rightarrow> real \<times> real \<Rightarrow> (xyz_point \<Rightarrow> real option) \<times> log_entry list" where
  "get_pad_potential_function implant thickness_domain =
     (pad_potential implant thickness_domain, [(TRACE, CalculatingPlaneCondenser)])"

text \<open>The tail of \<^verbatim>\<open>init\<close>, lines 68 to 71.\<close>

definition produce_histograms ::
  "configuration \<Rightarrow> detector \<Rightarrow> field_parser \<Rightarrow> log_entry list
     \<Rightarrow> (exn + unit) \<times> detector \<times> field_parser \<times> log_entry list" where
  "produce_histograms config det ps lg =
     (case get_output_plots config of
        Inl e \<Rightarrow> (Inl e, det, ps, lg)
      | Inr output_plots \<Rightarrow>
          if output_plots
          then (fst (create_output_plots config), det, ps, lg @ snd (create_output_plots config))
          else (Inr (), det, ps, lg))"

definition init ::
  "configuration \<Rightarrow> files \<Rightarrow> detector \<Rightarrow> field_parser
     \<Rightarrow> (exn + unit) \<times> detector \<times> field_parser \<times> log_entry list" where
  "init config fs det ps =
     (case get_model config of
        Inl e \<Rightarrow> (Inl e, det, ps, [])
      | Inr field_model \<Rightarrow>
          (let model = getModel det;
               sensor_max_z = rnd (z_xyz (getSensorCenter model)
                                     + rnd (z_xyz (getSensorSize model) / 2));
               thickness_domain = (rnd (sensor_max_z - z_xyz (getSensorSize model)),
                                   sensor_max_z)
           in if field_model = ''init'' then
                (case read_init_field config det thickness_domain fs ps of
                   (Inl e, ps', lg) \<Rightarrow> (Inl e, det, ps', lg)
                 | (Inr field_data, ps', lg) \<Rightarrow>
                     (let pixel_size = getPixelSize model;
                          field_scale = (fdiv (at0 (get2 field_data)) (x_xy pixel_size),
                                         fdiv (at1 (get2 field_data)) (y_xy pixel_size))
                      in produce_histograms config
                           (setWeightingPotentialGrid (get0 field_data) (get1 field_data)
                              field_scale (0, 0) thickness_domain det)
                           ps' lg))
              else if field_model = ''pad'' then
                (let implant = getImplantSize model;
                     function = get_pad_potential_function implant thickness_domain
                 in produce_histograms config
                      (setWeightingPotentialFunction (fst function) thickness_domain CUSTOM det)
                      ps ([(TRACE, AddingPadPotential)] @ snd function))
              else (Inl (InvalidValueError ''model'' ''model should be 'init' or `pad`''),
                    det, ps, [])))"

subsection \<open>Reading the log\<close>

text \<open>The warning of lines 226 to 229, about the size of the map against the pixel pitch.\<close>

definition is_map_size_warning :: "log_entry \<Rightarrow> bool" where
  "is_map_size_warning e =
     (case e of (WARNING, MapSizeMismatch xpixsz ypixsz px py) \<Rightarrow> True | _ \<Rightarrow> False)"

subsection \<open>A detector, a configuration and two files, for the concrete runs\<close>

text \<open>Lengths in millimetres: a pitch of 55 um, an implant of 50 um, a sensor 200 um thick
  centred at \<open>z = 0\<close>. The file declares a map of two pitches by one pitch, 250 um thick.\<close>

definition example_model :: detector_model where
  "example_model =
     \<lparr>getSensorCenter = \<lparr>x_xyz = 0, y_xyz = 0, z_xyz = 0\<rparr>,
      getSensorSize = \<lparr>x_xyz = 11 / 10, y_xyz = 11 / 10, z_xyz = 1 / 5\<rparr>,
      getPixelSize = \<lparr>x_xy = 11 / 200, y_xy = 11 / 200\<rparr>,
      getImplantSize = \<lparr>x_xy = 1 / 20, y_xy = 1 / 20\<rparr>\<rparr>"

definition example_detector :: detector where
  "example_detector = \<lparr>getModel = example_model, weighting_potential = None\<rparr>"

definition example_config :: "string \<Rightarrow> configuration" where
  "example_config field_model =
     \<lparr>get_model = Inr field_model,
      getPath_file_name = Inr ''/data/potential.init'',
      get_output_plots = Inr False,
      get_output_plots_steps = Inr 500,
      get_output_plots_position = Inr \<lparr>x_xy = 0, y_xy = 0\<rparr>\<rparr>"

definition example_files :: files where
  "example_files path =
     (if path = ''/data/potential.init''
      then Inr ([0, 1 / 2, 1 / 2, 1], (2, 1, 2), (11 / 100, 11 / 200, 1 / 4))
      else Inl (runtime_error ''file does not exist''))"

definition empty_parser :: field_parser where
  "empty_parser = \<lparr>field_map = Map.empty, tables = Map.empty, next_table = 0, parse_count = 0\<rparr>"

text \<open>The parser after it has loaded that file once.\<close>

definition loaded_parser :: field_parser where
  "loaded_parser =
     \<lparr>field_map = [''/data/potential.init''
                     \<mapsto> \<lparr>get0 = 0, get1 = (2, 1, 2), get2 = (11 / 100, 11 / 200, 1 / 4)\<rparr>],
      tables = [0 \<mapsto> [0, 1 / 2, 1 / 2, 1]],
      next_table = 1,
      parse_count = 1\<rparr>"

text \<open>A file the parser cannot allocate the table for, and a parser failure whose message
  happens to be the text of line 200.\<close>

definition oversized_files :: files where
  "oversized_files path = Inl bad_alloc"

definition corrupt_files :: files where
  "corrupt_files path = Inl (runtime_error ''file too large'')"

text \<open>A detector whose lengths are doubles, a sixteenth of a millimetre of pitch and a sensor
  an eighth thick, and a file that declares a map of one and a half pitches by one pitch, a
  quarter thick.\<close>

definition binary_model :: detector_model where
  "binary_model =
     \<lparr>getSensorCenter = \<lparr>x_xyz = 0, y_xyz = 0, z_xyz = 0\<rparr>,
      getSensorSize = \<lparr>x_xyz = 1, y_xyz = 1, z_xyz = 1 / 8\<rparr>,
      getPixelSize = \<lparr>x_xy = 1 / 16, y_xy = 1 / 16\<rparr>,
      getImplantSize = \<lparr>x_xy = 1 / 32, y_xy = 1 / 32\<rparr>\<rparr>"

definition binary_detector :: detector where
  "binary_detector = \<lparr>getModel = binary_model, weighting_potential = None\<rparr>"

definition binary_files :: files where
  "binary_files path =
     (if path = ''/data/potential.init''
      then Inr ([0, 1 / 2, 1 / 2, 1], (2, 1, 2), (3 / 32, 1 / 16, 1 / 4))
      else Inl (runtime_error ''file does not exist''))"

definition binary_field :: field_data where
  "binary_field = \<lparr>get0 = 0, get1 = (2, 1, 2), get2 = (3 / 32, 1 / 16, 1 / 4)\<rparr>"

text \<open>A sensor centred at \<open>z = 1\<close> whose thickness is the double nearest to \<open>0.3\<close>.\<close>

definition rounding_model :: detector_model where
  "rounding_model =
     \<lparr>getSensorCenter = \<lparr>x_xyz = 0, y_xyz = 0, z_xyz = 1\<rparr>,
      getSensorSize = \<lparr>x_xyz = 1, y_xyz = 1, z_xyz = 5404319552844595 / 18014398509481984\<rparr>,
      getPixelSize = \<lparr>x_xy = 1 / 16, y_xy = 1 / 16\<rparr>,
      getImplantSize = \<lparr>x_xy = 1 / 32, y_xy = 1 / 32\<rparr>\<rparr>"

definition rounding_detector :: detector where
  "rounding_detector = \<lparr>getModel = rounding_model, weighting_potential = None\<rparr>"

section \<open>Properties of the pad potential\<close>

text \<open>The loop is unfolded by hand, one turn at a time.\<close>

declare series_loop.simps [simp del]

lemma sqrt_sum_nonzero: "c \<noteq> 0 \<Longrightarrow> sqrt (a * a + b * b + c * c) \<noteq> (0::real)"
proof -
  assume c: "c \<noteq> 0"
  have "0 < c * c" using c by (simp add: power2_eq_square [symmetric])
  moreover have "0 \<le> a * a" "0 \<le> b * b" by simp_all
  ultimately have "0 < a * a + b * b + c * c" by linarith
  then show ?thesis by simp
qed

lemma arctan_lam_nonzero:
  "c \<noteq> 0 \<Longrightarrow> arctan_lam a b c = Some (atan_term_spec a b c)"
  using sqrt_sum_nonzero [of c a b]
  by (simp add: arctan_lam_def ieee_div_def ieee_atan_def atan_term_spec_def power2_eq_square)

lemma f_lam_nonzero: "u \<noteq> 0 \<Longrightarrow> f_lam implant x y u = Some (f_spec implant x y u)"
  by (simp add: f_lam_def f_spec_def Let_def arctan_lam_nonzero)






text \<open>
  Claim C2. The elementary function \<open>f(x, y, u)\<close> is the sum of four arctangent terms
  \<open>atan(\<Delta>x \<cdot> \<Delta>y / (u \<cdot> sqrt(\<Delta>x\<^sup>2 + \<Delta>y\<^sup>2 + u\<^sup>2)))\<close> with \<open>\<Delta>x = x \<plusminus> implant.x / 2\<close> and
  \<open>\<Delta>y = y \<plusminus> implant.y / 2\<close>: plus for the corners \<open>(-, -)\<close> and \<open>(+, +)\<close>, minus for the corners
  \<open>(-, +)\<close> and \<open>(+, -)\<close>. The source divides by \<open>u\<close> and then by the square root; away from
  \<open>u = 0\<close> that is the quotient by their product.
\<close>

theorem f_four_arctan_terms:
  assumes "u \<noteq> 0"
  shows "f_lam implant x y u = Some (
      arctan ((x - x_xy implant / 2) * (y - y_xy implant / 2)
                / (u * sqrt ((x - x_xy implant / 2)\<^sup>2 + (y - y_xy implant / 2)\<^sup>2 + u\<^sup>2)))
    + arctan ((x + x_xy implant / 2) * (y + y_xy implant / 2)
                / (u * sqrt ((x + x_xy implant / 2)\<^sup>2 + (y + y_xy implant / 2)\<^sup>2 + u\<^sup>2)))
    - arctan ((x - x_xy implant / 2) * (y + y_xy implant / 2)
                / (u * sqrt ((x - x_xy implant / 2)\<^sup>2 + (y + y_xy implant / 2)\<^sup>2 + u\<^sup>2)))
    - arctan ((x + x_xy implant / 2) * (y - y_xy implant / 2)
                / (u * sqrt ((x + x_xy implant / 2)\<^sup>2 + (y - y_xy implant / 2)\<^sup>2 + u\<^sup>2))))"
  using f_lam_nonzero [OF assms, of implant x y]
  by (simp add: f_spec_def atan_term_spec_def)

theorem f_four_arctan_terms_witness:
  "(1::real) \<noteq> 0 \<and> f_lam \<lparr>x_xy = 2, y_xy = 2\<rparr> 1 1 1 = Some (arctan (4 / 3))"
proof -
  have h: "(1::real) \<noteq> 0" by simp
  show ?thesis
    using f_four_arctan_terms [OF h, of "\<lparr>x_xy = 2, y_xy = 2\<rparr>" 1 1] by simp
qed

section \<open>Properties of rounding\<close>

lemma rnd_binade:
  assumes lo: "2 powi k \<le> \<bar>v\<bar>" and hi: "\<bar>v\<bar> < 2 powi (k + 1)" and k: "- 1022 \<le> k"
  shows "rnd v = of_int (round_to_even (v / 2 powi (k - 52))) * 2 powi (k - 52)"
proof -
  have pos: "0 < \<bar>v\<bar>"
    using lo zero_less_power_int [of "2::real" k] by linarith
  have p1: "(2::real) powr real_of_int k = 2 powi k"
    by (rule powr_real_of_int') simp_all
  have "(2::real) powr real_of_int (k + 1) = 2 powi (k + 1)"
    by (rule powr_real_of_int') simp_all
  then have p2: "(2::real) powr (real_of_int k + 1) = 2 powi (k + 1)"
    by simp
  have "(2::real) powr real_of_int k \<le> \<bar>v\<bar> \<and> \<bar>v\<bar> < 2 powr (real_of_int k + 1)"
    unfolding p1 p2 using lo hi by simp
  then have "\<lfloor>log 2 \<bar>v\<bar>\<rfloor> = k"
    using pos floor_log_eq_powr_iff [of "\<bar>v\<bar>" 2 k] by simp
  then have e: "max (\<lfloor>log 2 \<bar>v\<bar>\<rfloor> - 52) (- 1074) = k - 52"
    using k by simp
  have "v \<noteq> 0" using pos by simp
  then show ?thesis
    unfolding rnd_def Let_def e by simp
qed

lemma rnd_sixteenth: "rnd (1 / 16) = 1 / 16" "rnd (- (1 / 16)) = - (1 / 16)"
proof -
  show "rnd (1 / 16) = 1 / 16"
    by (subst rnd_binade [where k = "- 4"]) (simp_all add: round_to_even_def)
  show "rnd (- (1 / 16)) = - (1 / 16)"
    by (subst rnd_binade [where k = "- 4"]) (simp_all add: round_to_even_def)
qed

lemma rnd_half_size:
  "rnd (5404319552844595 / 36028797018963968) = 5404319552844595 / 36028797018963968"
  by (subst rnd_binade [where k = "- 3"]) (simp_all add: round_to_even_def)

lemma rnd_max_z:
  "rnd (41433116571808563 / 36028797018963968) = 2589569785738035 / 2251799813685248"
  by (subst rnd_binade [where k = 0]) (simp_all add: round_to_even_def)

lemma rnd_min_z:
  "rnd (15312238733059685 / 18014398509481984) = 3828059683264921 / 4503599627370496"
  by (subst rnd_binade [where k = "- 1"]) (simp_all add: round_to_even_def)

lemma rnd_centre_minus_half:
  "rnd (30624477466119373 / 36028797018963968) = 7656119366529843 / 9007199254740992"
  by (subst rnd_binade [where k = "- 1"]) (simp_all add: round_to_even_def)

lemma rnd_span:
  "rnd (1351079888211149 / 4503599627370496) = 1351079888211149 / 4503599627370496"
  by (subst rnd_binade [where k = "- 2"]) (simp_all add: round_to_even_def)

lemma rnd_one: "rnd 1 = 1"
  by (subst rnd_binade [where k = 0]) (simp_all add: round_to_even_def)

lemma rnd_three_halves: "rnd (3 / 2) = 3 / 2"
  by (subst rnd_binade [where k = 0]) (simp_all add: round_to_even_def)

lemma rnd_eighth: "rnd (1 / 8) = 1 / 8"
  by (subst rnd_binade [where k = "- 3"]) (simp_all add: round_to_even_def)

lemma rnd_fifth: "rnd (1 / 5) = 3602879701896397 / 18014398509481984"
  by (subst rnd_binade [where k = "- 3"]) (simp_all add: round_to_even_def)

lemma rnd_quarter_minus_fifth:
  "rnd (900719925474099 / 18014398509481984) = 900719925474099 / 18014398509481984"
  by (subst rnd_binade [where k = "- 5"]) (simp_all add: round_to_even_def)

section \<open>Properties of the field parser and of read_init_field\<close>

lemma get_by_file_name_cached:
  "get_by_file_name fs file_name ps = (Inr fd, ps') \<Longrightarrow> field_map ps' file_name = Some fd"
  by (auto simp add: get_by_file_name_def Let_def split: option.splits sum.splits prod.splits)

lemma get_by_file_name_hit:
  "field_map ps file_name = Some fd \<Longrightarrow> get_by_file_name fs file_name ps = (Inr fd, ps)"
  by (simp add: get_by_file_name_def)

lemma get_by_file_name_count:
  "parse_count (snd (get_by_file_name fs file_name ps)) \<le> parse_count ps + 1"
  by (auto simp add: get_by_file_name_def Let_def split: option.splits sum.splits prod.splits)

lemma read_init_field_returns:
  "getPath_file_name config = Inr file_name \<Longrightarrow>
   fst (read_init_field config det thickness_domain fs ps) = Inr fd \<Longrightarrow>
   get_by_file_name fs file_name ps = (Inr fd, fst (snd (read_init_field config det thickness_domain fs ps)))"
  by (cases "get_by_file_name fs file_name ps")
     (auto simp add: read_init_field_def split: sum.splits)

lemma read_init_field_loaded:
  "getPath_file_name config = Inr file_name \<Longrightarrow>
   get_by_file_name fs file_name ps = (Inr fd, ps') \<Longrightarrow>
   fst (read_init_field config det thickness_domain fs ps) = Inr fd
   \<and> fst (snd (read_init_field config det thickness_domain fs ps)) = ps'"
  by (simp add: read_init_field_def)

lemma example_first_load:
  "read_init_field (example_config ''init'') example_detector (- 1 / 10, 1 / 10) example_files empty_parser
     = (Inr \<lparr>get0 = 0, get1 = (2, 1, 2), get2 = (11 / 100, 11 / 200, 1 / 4)\<rparr>,
        loaded_parser,
        [(TRACE, FetchingInitFile), (WARNING, ThicknessMismatch (1 / 4) (3602879701896397 / 18014398509481984)),
         (INFO, SetWeightingField 2 1 2)])"
  by (simp add: read_init_field_def get_by_file_name_def example_config_def example_files_def
        empty_parser_def loaded_parser_def check_detector_match_def example_detector_def
        example_model_def Let_def at0_def at1_def at2_def fmod_def trunc_def exceeds_epsilon_def
        epsilon_def rnd_fifth rnd_quarter_minus_fifth)

text \<open>
  Claim C3. Two loads of the same file path, by the same or by two module instances (each
  with its own configuration, detector and thickness domain), through the one shared parser:
  when the first load returns a field, the second returns the identical field data, with
  the same table address, leaves the parser's state as it is, so it runs no parse, and the
  first load ran at most one parse. The second load does not look at the file again,
  whatever it holds by then.
\<close>

theorem second_load_shares_table:
  assumes p1: "getPath_file_name config1 = Inr file_name"
      and p2: "getPath_file_name config2 = Inr file_name"
      and r1: "read_init_field config1 det1 domain1 fs1 ps = (Inr fd, ps1, log1)"
  shows "fst (read_init_field config2 det2 domain2 fs2 ps1) = Inr fd
         \<and> fst (snd (read_init_field config2 det2 domain2 fs2 ps1)) = ps1
         \<and> parse_count ps1 \<le> parse_count ps + 1"
proof -
  have g: "get_by_file_name fs1 file_name ps = (Inr fd, ps1)"
    using read_init_field_returns [OF p1, of det1 domain1 fs1 ps fd] r1 by simp
  have hit: "get_by_file_name fs2 file_name ps1 = (Inr fd, ps1)"
    by (rule get_by_file_name_hit [OF get_by_file_name_cached [OF g]])
  have "parse_count ps1 \<le> parse_count ps + 1"
    using get_by_file_name_count [of fs1 file_name ps] g by simp
  then show ?thesis
    using read_init_field_loaded [OF p2 hit, of det2 domain2] by simp
qed

theorem second_load_shares_table_witness:
  "getPath_file_name (example_config ''init'') = Inr ''/data/potential.init''
   \<and> read_init_field (example_config ''init'') example_detector (- 1 / 10, 1 / 10)
         example_files empty_parser
       = (Inr \<lparr>get0 = 0, get1 = (2, 1, 2), get2 = (11 / 100, 11 / 200, 1 / 4)\<rparr>,
          loaded_parser,
          [(TRACE, FetchingInitFile), (WARNING, ThicknessMismatch (1 / 4) (3602879701896397 / 18014398509481984)),
           (INFO, SetWeightingField 2 1 2)])
   \<and> fst (read_init_field (example_config ''init'') example_detector (0, 1 / 5)
            oversized_files loaded_parser)
       = Inr \<lparr>get0 = 0, get1 = (2, 1, 2), get2 = (11 / 100, 11 / 200, 1 / 4)\<rparr>
   \<and> parse_count loaded_parser \<le> parse_count empty_parser + 1"
proof -
  have p: "getPath_file_name (example_config ''init'') = Inr ''/data/potential.init''"
    by (simp add: example_config_def)
  show ?thesis
    using p example_first_load
      second_load_shares_table [OF p p example_first_load,
        of example_detector "(0, 1 / 5)" oversized_files]
    by simp
qed

text \<open>
  Claim C5, as the code has it. Every failure of the parser that \<^verbatim>\<open>read_init_field\<close> catches
  becomes the same exception, \<^verbatim>\<open>InvalidValueError\<close> on the key \<^verbatim>\<open>file_name\<close>: a failed
  allocation (\<^verbatim>\<open>std::bad_alloc\<close>) with the fixed reason \<^verbatim>\<open>file too large\<close>, a
  \<^verbatim>\<open>std::runtime_error\<close> or \<^verbatim>\<open>std::invalid_argument\<close> with the parser's own message as the
  reason.
\<close>

theorem field_file_errors_are_invalid_value_errors:
  assumes p: "getPath_file_name config = Inr file_name"
      and miss: "field_map ps file_name = None"
  shows "(fs file_name = Inl bad_alloc \<longrightarrow>
            fst (read_init_field config det thickness_domain fs ps)
              = Inl (InvalidValueError ''file_name'' ''file too large''))
       \<and> (fs file_name = Inl (runtime_error what) \<longrightarrow>
            fst (read_init_field config det thickness_domain fs ps)
              = Inl (InvalidValueError ''file_name'' what))
       \<and> (fs file_name = Inl (invalid_argument what) \<longrightarrow>
            fst (read_init_field config det thickness_domain fs ps)
              = Inl (InvalidValueError ''file_name'' what))"
  using p miss by (simp add: read_init_field_def get_by_file_name_def)

theorem field_file_errors_are_invalid_value_errors_witness:
  "getPath_file_name (example_config ''init'') = Inr ''/data/potential.init''
   \<and> field_map empty_parser ''/data/potential.init'' = None
   \<and> oversized_files ''/data/potential.init'' = Inl bad_alloc
   \<and> fst (read_init_field (example_config ''init'') example_detector (- 1 / 10, 1 / 10)
            oversized_files empty_parser)
       = Inl (InvalidValueError ''file_name'' ''file too large'')
   \<and> example_files ''/data/missing.init'' = Inl (runtime_error ''file does not exist'')
   \<and> fst (read_init_field
            ((example_config ''init'')\<lparr>getPath_file_name := Inr ''/data/missing.init''\<rparr>)
            example_detector (- 1 / 10, 1 / 10) example_files empty_parser)
       = Inl (InvalidValueError ''file_name'' ''file does not exist'')"
proof -
  have p: "getPath_file_name (example_config ''init'') = Inr ''/data/potential.init''"
    and q: "getPath_file_name ((example_config ''init'')\<lparr>getPath_file_name := Inr ''/data/missing.init''\<rparr>)
              = Inr ''/data/missing.init''"
    by (simp_all add: example_config_def)
  have c: "field_map empty_parser ''/data/potential.init'' = None"
    and d: "field_map empty_parser ''/data/missing.init'' = None"
    by (simp_all add: empty_parser_def)
  have o: "oversized_files ''/data/potential.init'' = Inl bad_alloc"
    by (simp add: oversized_files_def)
  have r: "example_files ''/data/missing.init'' = Inl (runtime_error ''file does not exist'')"
    by (simp add: example_files_def)
  show ?thesis
    using p c o r
      field_file_errors_are_invalid_value_errors [OF p c,
        of oversized_files example_detector "(- 1 / 10, 1 / 10)"]
      field_file_errors_are_invalid_value_errors [OF q d,
        of example_files example_detector "(- 1 / 10, 1 / 10)" "''file does not exist''"]
    by simp
qed

text \<open>
  There is no exception class for an oversized file, and nothing keeps the two failures
  apart but the reason text: a parser failure with the message \<^verbatim>\<open>file too large\<close> and a failed
  allocation give one and the same exception.
\<close>

theorem oversized_error_not_distinct:
  "fst (read_init_field (example_config ''init'') example_detector (- 1 / 10, 1 / 10)
          oversized_files empty_parser)
     = Inl (InvalidValueError ''file_name'' ''file too large'')
   \<and> fst (read_init_field (example_config ''init'') example_detector (- 1 / 10, 1 / 10)
          corrupt_files empty_parser)
     = Inl (InvalidValueError ''file_name'' ''file too large'')"
  by (simp add: read_init_field_def get_by_file_name_def example_config_def empty_parser_def
        oversized_files_def corrupt_files_def)

section \<open>Properties of check_detector_match\<close>

lemma trunc_of_int: "trunc (of_int k) = k"
  by (simp add: trunc_def)

lemma fmod_multiple: "fmod (of_int k * p) p = (if p = 0 then None else Some 0)"
  by (simp add: fmod_def trunc_of_int)

lemma not_exceeds_multiple: "\<not> exceeds_epsilon (fmod (of_int k * p) p)"
  by (simp add: fmod_multiple exceeds_epsilon_def epsilon_def)

text \<open>
  Claim C6. When the x and y sizes of the map are each an integer multiple of the pixel
  pitch in that axis, \<^verbatim>\<open>check_detector_match\<close> logs no map-size warning: neither \<^verbatim>\<open>fmod\<close>
  exceeds epsilon (for a non-zero pitch it is zero; for a zero pitch it is a NaN, and the
  comparison is false).
\<close>

theorem exact_multiple_no_map_size_warning:
  assumes "at0 dimensions = of_int k * x_xy (getPixelSize m)"
      and "at1 dimensions = of_int l * y_xy (getPixelSize m)"
  shows "\<not> exceeds_epsilon (fmod (at0 dimensions) (x_xy (getPixelSize m)))
       \<and> \<not> exceeds_epsilon (fmod (at1 dimensions) (y_xy (getPixelSize m)))
       \<and> \<not> list_ex is_map_size_warning
             (check_detector_match (Some m) dimensions thickness_domain)"
  using assms
  by (simp add: check_detector_match_def Let_def not_exceeds_multiple is_map_size_warning_def)

theorem exact_multiple_no_map_size_warning_witness:
  "at0 (11 / 100, 11 / 200, 1 / 4) = of_int 2 * x_xy (getPixelSize example_model)
   \<and> at1 (11 / 100, 11 / 200, 1 / 4) = of_int 1 * y_xy (getPixelSize example_model)
   \<and> check_detector_match (Some example_model) (11 / 100, 11 / 200, 1 / 4) (- 1 / 10, 1 / 10)
       = [(WARNING, ThicknessMismatch (1 / 4) (3602879701896397 / 18014398509481984))]"
proof -
  have h0: "at0 (11 / 100, 11 / 200, 1 / 4 :: real) = of_int 2 * x_xy (getPixelSize example_model)"
    by (simp add: at0_def example_model_def)
  have h1: "at1 (11 / 100, 11 / 200, 1 / 4 :: real) = of_int 1 * y_xy (getPixelSize example_model)"
    by (simp add: at1_def example_model_def)
  have "\<not> list_ex is_map_size_warning
          (check_detector_match (Some example_model) (11 / 100, 11 / 200, 1 / 4) (- 1 / 10, 1 / 10))"
    using exact_multiple_no_map_size_warning [OF h0 h1] by simp
  then show ?thesis
    using h0 h1
    by (simp add: check_detector_match_def Let_def at2_def epsilon_def is_map_size_warning_def
          rnd_fifth rnd_quarter_minus_fifth split: if_splits)
qed

section \<open>Properties of init\<close>

lemma produce_histograms_detector:
  "fst (snd (produce_histograms config det ps lg)) = det"
  by (simp add: produce_histograms_def split: sum.splits)

lemma produce_histograms_no_plots:
  "get_output_plots config = Inr False \<Longrightarrow> fst (produce_histograms config det ps lg) = Inr ()"
  by (simp add: produce_histograms_def)

lemma produce_histograms_log:
  "e \<in> set lg \<Longrightarrow> e \<in> set (snd (snd (snd (produce_histograms config det ps lg))))"
  by (simp add: produce_histograms_def split: sum.splits)

lemma read_init_field_log:
  assumes "getPath_file_name config = Inr file_name"
      and "get_by_file_name fs file_name ps = (Inr fd, ps')"
  shows "read_init_field config det td fs ps =
           (Inr fd, ps',
            [(TRACE, FetchingInitFile)]
            @ check_detector_match (Some (getModel det)) (get2 fd) td
            @ [(INFO, SetWeightingField (at0 (get1 fd)) (at1 (get1 fd)) (at2 (get1 fd)))])"
  using assms by (simp add: read_init_field_def)

lemma init_grid:
  assumes "get_model config = Inr ''init''"
      and "getPath_file_name config = Inr file_name"
      and "get_by_file_name fs file_name ps = (Inr fd, ps')"
      and "td = (rnd (rnd (z_xyz (getSensorCenter (getModel det))
                             + rnd (z_xyz (getSensorSize (getModel det)) / 2))
                        - z_xyz (getSensorSize (getModel det))),
                 rnd (z_xyz (getSensorCenter (getModel det))
                        + rnd (z_xyz (getSensorSize (getModel det)) / 2)))"
  shows "init config fs det ps =
           produce_histograms config
             (setWeightingPotentialGrid (get0 fd) (get1 fd)
                (fdiv (at0 (get2 fd)) (x_xy (getPixelSize (getModel det))),
                 fdiv (at1 (get2 fd)) (y_xy (getPixelSize (getModel det))))
                (0, 0) td det)
             ps'
             (snd (snd (read_init_field config det td fs ps)))"
  using assms by (simp add: init_def Let_def read_init_field_def)

lemma init_pad:
  assumes "get_model config = Inr ''pad''"
      and "td = (rnd (rnd (z_xyz (getSensorCenter (getModel det))
                             + rnd (z_xyz (getSensorSize (getModel det)) / 2))
                        - z_xyz (getSensorSize (getModel det))),
                 rnd (z_xyz (getSensorCenter (getModel det))
                        + rnd (z_xyz (getSensorSize (getModel det)) / 2)))"
  shows "fst (snd (init config fs det ps)) =
           setWeightingPotentialFunction
             (pad_potential (getImplantSize (getModel det)) td) td CUSTOM det"
  using assms
  by (simp add: init_def Let_def get_pad_potential_function_def produce_histograms_detector)

lemma binary_thickness_domain:
  "(- (1 / 16), 1 / 16) =
     (rnd (rnd (z_xyz (getSensorCenter (getModel binary_detector))
                  + rnd (z_xyz (getSensorSize (getModel binary_detector)) / 2))
             - z_xyz (getSensorSize (getModel binary_detector))),
      rnd (z_xyz (getSensorCenter (getModel binary_detector))
             + rnd (z_xyz (getSensorSize (getModel binary_detector)) / 2)))"
  by (simp add: binary_detector_def binary_model_def rnd_sixteenth)

lemma binary_get_by_file_name:
  "get_by_file_name binary_files ''/data/potential.init'' empty_parser
     = (Inr binary_field, snd (get_by_file_name binary_files ''/data/potential.init'' empty_parser))"
  by (simp add: get_by_file_name_def binary_files_def empty_parser_def binary_field_def Let_def)

text \<open>
  Claim C4. A field whose declared thickness differs from the span of the thickness domain
  by more than epsilon (both differences as the doubles of lines 217 and 218), or whose x or y size leaves a remainder above epsilon against the
  pixel pitch, is not rejected. The warning of the mismatch is in the log of
  \<^verbatim>\<open>read_init_field\<close> and in the log of \<^verbatim>\<open>init\<close>; \<^verbatim>\<open>read_init_field\<close> returns the field data;
  \<^verbatim>\<open>init\<close> installs it in the detector as the weighting potential grid, with the module's
  thickness domain; the detector's query then returns a value of that grid and not the
  error of a field that was never installed; with plots switched off \<^verbatim>\<open>init\<close> returns
  normally.
\<close>

theorem mismatched_field_is_installed:
  assumes m: "get_model config = Inr ''init''"
      and p: "getPath_file_name config = Inr file_name"
      and g: "get_by_file_name fs file_name ps = (Inr fd, ps')"
      and td: "thickness_domain =
                 (rnd (rnd (z_xyz (getSensorCenter (getModel det))
                              + rnd (z_xyz (getSensorSize (getModel det)) / 2))
                         - z_xyz (getSensorSize (getModel det))),
                  rnd (z_xyz (getSensorCenter (getModel det))
                         + rnd (z_xyz (getSensorSize (getModel det)) / 2)))"
      and grid: "grid = GridField (get0 fd) (get1 fd)
                     (fdiv (at0 (get2 fd)) (x_xy (getPixelSize (getModel det))),
                      fdiv (at1 (get2 fd)) (y_xy (getPixelSize (getModel det))))
                     (0, 0) thickness_domain"
      and eff: "eff_thickness = rnd (snd thickness_domain - fst thickness_domain)"
  shows "(epsilon < \<bar>rnd (at2 (get2 fd) - eff_thickness)\<bar> \<longrightarrow>
            (WARNING, ThicknessMismatch (at2 (get2 fd)) eff_thickness)
              \<in> set (snd (snd (read_init_field config det thickness_domain fs ps)))
          \<and> (WARNING, ThicknessMismatch (at2 (get2 fd)) eff_thickness)
              \<in> set (snd (snd (snd (init config fs det ps)))))
       \<and> (exceeds_epsilon (fmod (at0 (get2 fd)) (x_xy (getPixelSize (getModel det))))
            \<or> exceeds_epsilon (fmod (at1 (get2 fd)) (y_xy (getPixelSize (getModel det)))) \<longrightarrow>
            (WARNING, MapSizeMismatch (at0 (get2 fd)) (at1 (get2 fd))
                        (x_xy (getPixelSize (getModel det))) (y_xy (getPixelSize (getModel det))))
              \<in> set (snd (snd (read_init_field config det thickness_domain fs ps)))
          \<and> (WARNING, MapSizeMismatch (at0 (get2 fd)) (at1 (get2 fd))
                        (x_xy (getPixelSize (getModel det))) (y_xy (getPixelSize (getModel det))))
              \<in> set (snd (snd (snd (init config fs det ps)))))
       \<and> fst (read_init_field config det thickness_domain fs ps) = Inr fd
       \<and> weighting_potential (fst (snd (init config fs det ps))) = Some grid
       \<and> getWeightingPotential evaluate (fst (snd (init config fs det ps))) pos pixel
           = Inr (evaluate grid pos pixel)
       \<and> (get_output_plots config = Inr False \<longrightarrow> fst (init config fs det ps) = Inr ())"
proof -
  let ?rlog = "snd (snd (read_init_field config det thickness_domain fs ps))"
  let ?ilog = "snd (snd (snd (init config fs det ps)))"
  have rl: "?rlog = [(TRACE, FetchingInitFile)]
            @ check_detector_match (Some (getModel det)) (get2 fd) thickness_domain
            @ [(INFO, SetWeightingField (at0 (get1 fd)) (at1 (get1 fd)) (at2 (get1 fd)))]"
    by (simp add: read_init_field_log [OF p g])
  have il: "e \<in> set ?rlog \<Longrightarrow> e \<in> set ?ilog" for e
    unfolding init_grid [OF m p g td] by (rule produce_histograms_log)
  have t: "epsilon < \<bar>rnd (at2 (get2 fd) - eff_thickness)\<bar> \<Longrightarrow>
      (WARNING, ThicknessMismatch (at2 (get2 fd)) eff_thickness) \<in> set ?rlog"
    unfolding rl eff by (simp add: check_detector_match_def Let_def)
  have s: "exceeds_epsilon (fmod (at0 (get2 fd)) (x_xy (getPixelSize (getModel det))))
            \<or> exceeds_epsilon (fmod (at1 (get2 fd)) (y_xy (getPixelSize (getModel det)))) \<Longrightarrow>
      (WARNING, MapSizeMismatch (at0 (get2 fd)) (at1 (get2 fd))
                        (x_xy (getPixelSize (getModel det))) (y_xy (getPixelSize (getModel det))))
        \<in> set ?rlog"
    unfolding rl by (simp add: check_detector_match_def Let_def)
  have r: "fst (read_init_field config det thickness_domain fs ps) = Inr fd"
    by (simp add: read_init_field_log [OF p g])
  have i: "weighting_potential (fst (snd (init config fs det ps))) = Some grid"
    unfolding init_grid [OF m p g td] produce_histograms_detector grid
    by (simp add: setWeightingPotentialGrid_def)
  have q: "getWeightingPotential evaluate (fst (snd (init config fs det ps))) pos pixel
           = Inr (evaluate grid pos pixel)"
    by (simp add: getWeightingPotential_def i)
  have n: "get_output_plots config = Inr False \<longrightarrow> fst (init config fs det ps) = Inr ()"
    unfolding init_grid [OF m p g td] by (simp add: produce_histograms_no_plots)
  from t s il r i q n show ?thesis by blast
qed

theorem mismatched_field_is_installed_witness:
  "get_model (example_config ''init'') = Inr ''init''
   \<and> epsilon < \<bar>rnd (at2 (get2 binary_field) - rnd (1 / 16 - (- (1 / 16))))\<bar>
   \<and> exceeds_epsilon (fmod (at0 (get2 binary_field)) (x_xy (getPixelSize (getModel binary_detector))))
   \<and> (WARNING, ThicknessMismatch (1 / 4) (1 / 8))
        \<in> set (snd (snd (snd (init (example_config ''init'') binary_files binary_detector empty_parser))))
   \<and> (WARNING, MapSizeMismatch (3 / 32) (1 / 16) (1 / 16) (1 / 16))
        \<in> set (snd (snd (snd (init (example_config ''init'') binary_files binary_detector empty_parser))))
   \<and> fst (read_init_field (example_config ''init'') binary_detector (- (1 / 16), 1 / 16)
            binary_files empty_parser) = Inr binary_field
   \<and> weighting_potential
        (fst (snd (init (example_config ''init'') binary_files binary_detector empty_parser)))
       = Some (GridField 0 (2, 1, 2) (Some (3 / 2), Some 1) (0, 0) (- (1 / 16), 1 / 16))
   \<and> getWeightingPotential (\<lambda>field pos pixel. None)
        (fst (snd (init (example_config ''init'') binary_files binary_detector empty_parser)))
        \<lparr>x_xyz = 0, y_xyz = 0, z_xyz = 0\<rparr> (0, 0) = Inr None
   \<and> fst (init (example_config ''init'') binary_files binary_detector empty_parser) = Inr ()"
proof -
  have m: "get_model (example_config ''init'') = Inr ''init''"
    and p: "getPath_file_name (example_config ''init'') = Inr ''/data/potential.init''"
    and o: "get_output_plots (example_config ''init'') = Inr False"
    by (simp_all add: example_config_def)
  have e: "epsilon < \<bar>rnd (at2 (get2 binary_field) - rnd (1 / 16 - (- (1 / 16))))\<bar>"
    by (simp add: binary_field_def at2_def epsilon_def rnd_eighth)
  have f: "rnd (1 / 16 - (- (1 / 16))) = rnd (snd (- (1 / 16) :: real, 1 / 16 :: real)
                                               - fst (- (1 / 16) :: real, 1 / 16 :: real))"
    by simp
  have x: "exceeds_epsilon (fmod (at0 (get2 binary_field)) (x_xy (getPixelSize (getModel binary_detector))))"
    by (simp add: binary_field_def binary_detector_def binary_model_def at0_def fmod_def trunc_def
          exceeds_epsilon_def epsilon_def)
  have grid: "GridField 0 (2, 1, 2) (Some (3 / 2), Some 1) (0, 0) (- (1 / 16), 1 / 16)
     = GridField (get0 binary_field) (get1 binary_field)
         (fdiv (at0 (get2 binary_field)) (x_xy (getPixelSize (getModel binary_detector))),
          fdiv (at1 (get2 binary_field)) (y_xy (getPixelSize (getModel binary_detector))))
         (0, 0) (- (1 / 16), 1 / 16)"
    by (simp add: binary_field_def binary_detector_def binary_model_def at0_def at1_def fdiv_def
          rnd_three_halves rnd_one)
  show ?thesis
    using m e x o
      mismatched_field_is_installed [OF m p binary_get_by_file_name binary_thickness_domain grid f,
        of "\<lambda>field pos pixel. None" "\<lparr>x_xyz = 0, y_xyz = 0, z_xyz = 0\<rparr>" "(0, 0)"]
    by (simp add: binary_field_def binary_detector_def binary_model_def at0_def at1_def at2_def
          rnd_eighth)
qed

text \<open>
  Claim C9. When the configured \<^verbatim>\<open>model\<close> is a string other than \<^verbatim>\<open>init\<close> and \<^verbatim>\<open>pad\<close>,
  \<^verbatim>\<open>init\<close> throws \<^verbatim>\<open>InvalidValueError\<close> for the key \<^verbatim>\<open>model\<close>, and it does so with the
  detector and the parser untouched and nothing logged: no field has been installed.
\<close>

theorem invalid_model_is_configuration_error:
  assumes "get_model config = Inr field_model"
      and "field_model \<noteq> ''init''" and "field_model \<noteq> ''pad''"
  shows "init config fs det ps
           = (Inl (InvalidValueError ''model'' ''model should be 'init' or `pad`''), det, ps, [])"
  using assms by (simp add: init_def Let_def)

theorem invalid_model_is_configuration_error_witness:
  "get_model (example_config ''linear'') = Inr ''linear''
   \<and> ''linear'' \<noteq> ''init'' \<and> ''linear'' \<noteq> ''pad''
   \<and> init (example_config ''linear'') example_files example_detector empty_parser
       = (Inl (InvalidValueError ''model'' ''model should be 'init' or `pad`''),
          example_detector, empty_parser, [])"
proof -
  have h: "get_model (example_config ''linear'') = Inr ''linear''"
    by (simp add: example_config_def)
  have n1: "''linear'' \<noteq> ''init''" and n2: "''linear'' \<noteq> ''pad''" by simp_all
  show ?thesis
    using h n1 n2 invalid_model_is_configuration_error [OF h n1 n2, of example_files example_detector empty_parser]
    by simp
qed

text \<open>
  Claim C10, as the code has it. Whenever \<^verbatim>\<open>init\<close> installs a weighting potential, for the
  model \<^verbatim>\<open>pad\<close> and for the model \<^verbatim>\<open>init\<close> with a field file that loads, the thickness domain
  installed with it is \<open>(sensor_max_z - sensor_size.z, sensor_max_z)\<close> with
  \<open>sensor_max_z = sensor_center.z + sensor_size.z / 2\<close>, each operation rounded to a double.
  When the halving, the sum and the difference \<open>sensor_center.z - sensor_size.z / 2\<close> are
  exact, that is \<open>(sensor_center.z - sensor_size.z / 2, sensor_center.z + sensor_size.z / 2)\<close>
  and its span is the sensor size in z.
\<close>

theorem installed_domain_rounded:
  assumes m: "get_model config = Inr field_model"
      and installs: "field_model = ''pad''
         \<or> (field_model = ''init'' \<and> getPath_file_name config = Inr file_name
              \<and> fst (get_by_file_name fs file_name ps) = Inr fd)"
      and c: "c = z_xyz (getSensorCenter (getModel det))"
      and s: "s = z_xyz (getSensorSize (getModel det))"
  shows "\<exists>fld. weighting_potential (fst (snd (init config fs det ps))) = Some fld
           \<and> field_thickness_domain fld = (rnd (rnd (c + rnd (s / 2)) - s), rnd (c + rnd (s / 2)))
           \<and> (rnd (s / 2) = s / 2 \<and> rnd (c + s / 2) = c + s / 2 \<and> rnd (c - s / 2) = c - s / 2
                \<longrightarrow> field_thickness_domain fld = (c - s / 2, c + s / 2)
                  \<and> snd (field_thickness_domain fld) - fst (field_thickness_domain fld) = s)"
proof -
  define td where "td = (rnd (rnd (c + rnd (s / 2)) - s), rnd (c + rnd (s / 2)))"
  have td: "td = (rnd (rnd (z_xyz (getSensorCenter (getModel det))
                             + rnd (z_xyz (getSensorSize (getModel det)) / 2))
                        - z_xyz (getSensorSize (getModel det))),
                 rnd (z_xyz (getSensorCenter (getModel det))
                        + rnd (z_xyz (getSensorSize (getModel det)) / 2)))"
    by (simp add: td_def c s)
  have exact: "td = (c - s / 2, c + s / 2) \<and> snd td - fst td = s"
    if "rnd (s / 2) = s / 2 \<and> rnd (c + s / 2) = c + s / 2 \<and> rnd (c - s / 2) = c - s / 2"
  proof -
    from that have h: "rnd (s / 2) = s / 2" and hi: "rnd (c + s / 2) = c + s / 2"
      and lo: "rnd (c - s / 2) = c - s / 2" by blast+
    have "c + s / 2 - s = c - s / 2" by simp
    then have "td = (c - s / 2, c + s / 2)"
      unfolding td_def h hi by (simp only: lo)
    then show ?thesis by simp
  qed
  have "\<exists>fld. weighting_potential (fst (snd (init config fs det ps))) = Some fld
           \<and> field_thickness_domain fld = td"
    using installs
  proof
    assume "field_model = ''pad''"
    then have m': "get_model config = Inr ''pad''" using m by simp
    show ?thesis
      unfolding init_pad [OF m' td] by (simp add: setWeightingPotentialFunction_def)
  next
    assume a: "field_model = ''init'' \<and> getPath_file_name config = Inr file_name
                \<and> fst (get_by_file_name fs file_name ps) = Inr fd"
    then have m': "get_model config = Inr ''init''" using m by simp
    from a have p: "getPath_file_name config = Inr file_name" by simp
    from a have g: "get_by_file_name fs file_name ps
                      = (Inr fd, snd (get_by_file_name fs file_name ps))"
      by (cases "get_by_file_name fs file_name ps") simp
    show ?thesis
      unfolding init_grid [OF m' p g td] produce_histograms_detector
      by (simp add: setWeightingPotentialGrid_def)
  qed
  then show ?thesis
    using exact unfolding td_def [symmetric] by auto
qed

theorem installed_domain_rounded_witness:
  "get_model (example_config ''pad'') = Inr ''pad''
   \<and> rnd (1 / 8 / 2) = 1 / 8 / 2 \<and> rnd (0 + 1 / 8 / 2) = 0 + 1 / 8 / 2
   \<and> rnd (0 - 1 / 8 / 2) = 0 - 1 / 8 / 2
   \<and> (\<exists>fld. weighting_potential
               (fst (snd (init (example_config ''pad'') binary_files binary_detector empty_parser)))
             = Some fld
          \<and> field_thickness_domain fld = (- (1 / 16), 1 / 16)
          \<and> snd (field_thickness_domain fld) - fst (field_thickness_domain fld) = 1 / 8)
   \<and> get_model (example_config ''init'') = Inr ''init''
   \<and> getPath_file_name (example_config ''init'') = Inr ''/data/potential.init''
   \<and> fst (get_by_file_name binary_files ''/data/potential.init'' empty_parser) = Inr binary_field
   \<and> (\<exists>fld. weighting_potential
               (fst (snd (init (example_config ''init'') binary_files binary_detector empty_parser)))
             = Some fld
          \<and> field_thickness_domain fld = (- (1 / 16), 1 / 16)
          \<and> snd (field_thickness_domain fld) - fst (field_thickness_domain fld) = 1 / 8)"
proof -
  have mp: "get_model (example_config ''pad'') = Inr ''pad''"
    and mi: "get_model (example_config ''init'') = Inr ''init''"
    and p: "getPath_file_name (example_config ''init'') = Inr ''/data/potential.init''"
    by (simp_all add: example_config_def)
  have g: "fst (get_by_file_name binary_files ''/data/potential.init'' empty_parser) = Inr binary_field"
    by (simp add: get_by_file_name_def binary_files_def empty_parser_def binary_field_def Let_def)
  have c: "0 = z_xyz (getSensorCenter (getModel binary_detector))"
    and s: "1 / 8 = z_xyz (getSensorSize (getModel binary_detector))"
    by (simp_all add: binary_detector_def binary_model_def)
  have r: "rnd (1 / 8 / 2) = 1 / 8 / 2" "rnd (0 + 1 / 8 / 2) = 0 + 1 / 8 / 2"
          "rnd (0 - 1 / 8 / 2) = 0 - 1 / 8 / 2"
    by (simp_all add: rnd_sixteenth)
  have hp: "''pad'' = ''pad''
         \<or> (''pad'' = ''init'' \<and> getPath_file_name (example_config ''pad'') = Inr ''/data/potential.init''
              \<and> fst (get_by_file_name binary_files ''/data/potential.init'' empty_parser)
                  = Inr binary_field)"
    by simp
  have hi: "''init'' = ''pad''
         \<or> (''init'' = ''init'' \<and> getPath_file_name (example_config ''init'') = Inr ''/data/potential.init''
              \<and> fst (get_by_file_name binary_files ''/data/potential.init'' empty_parser)
                  = Inr binary_field)"
    using p g by simp
  show ?thesis
    using mp mi p g r
      installed_domain_rounded [OF mp hp c s]
      installed_domain_rounded [OF mi hi c s]
    by (simp add: rnd_sixteenth)
qed

text \<open>
  Without that exactness the lower end and the span are off by a rounding. For the sensor
  centred at \<open>z = 1\<close> with the thickness \<open>0.3\<close>, the lower end installed is
  \<open>0.8499999999999999\<close> where \<open>sensor_center.z - sensor_size.z / 2\<close> is \<open>0.85\<close> in doubles, and
  the span of the installed domain is \<open>0.30000000000000004\<close> in doubles.
\<close>

theorem installed_span_is_not_sensor_size:
  "map_option field_thickness_domain
     (weighting_potential
        (fst (snd (init (example_config ''pad'') example_files rounding_detector empty_parser))))
     = Some (3828059683264921 / 4503599627370496, 2589569785738035 / 2251799813685248)
   \<and> z_xyz (getSensorCenter (getModel rounding_detector)) = 1
   \<and> z_xyz (getSensorSize (getModel rounding_detector)) = 5404319552844595 / 18014398509481984
   \<and> rnd (1 - rnd (5404319552844595 / 18014398509481984 / 2))
       = 7656119366529843 / 9007199254740992
   \<and> rnd (2589569785738035 / 2251799813685248 - 3828059683264921 / 4503599627370496)
       = 1351079888211149 / 4503599627370496
   \<and> (3828059683264921 / 4503599627370496 :: real) \<noteq> 7656119366529843 / 9007199254740992
   \<and> (1351079888211149 / 4503599627370496 :: real) \<noteq> 5404319552844595 / 18014398509481984"
proof -
  have m: "get_model (example_config ''pad'') = Inr ''pad''"
    by (simp add: example_config_def)
  have td: "(3828059683264921 / 4503599627370496, 2589569785738035 / 2251799813685248) =
       (rnd (rnd (z_xyz (getSensorCenter (getModel rounding_detector))
                    + rnd (z_xyz (getSensorSize (getModel rounding_detector)) / 2))
               - z_xyz (getSensorSize (getModel rounding_detector))),
        rnd (z_xyz (getSensorCenter (getModel rounding_detector))
               + rnd (z_xyz (getSensorSize (getModel rounding_detector)) / 2)))"
    by (simp add: rounding_detector_def rounding_model_def rnd_half_size rnd_max_z rnd_min_z)
  have d: "map_option field_thickness_domain
     (weighting_potential
        (fst (snd (init (example_config ''pad'') example_files rounding_detector empty_parser))))
     = Some (3828059683264921 / 4503599627370496, 2589569785738035 / 2251799813685248)"
    unfolding init_pad [OF m td] by (simp add: setWeightingPotentialFunction_def)
  have g: "z_xyz (getSensorCenter (getModel rounding_detector)) = 1"
    "z_xyz (getSensorSize (getModel rounding_detector)) = 5404319552844595 / 18014398509481984"
    by (simp_all add: rounding_detector_def rounding_model_def)
  have c: "rnd (1 - rnd (5404319552844595 / 18014398509481984 / 2))
       = 7656119366529843 / 9007199254740992"
    by (simp add: rnd_half_size rnd_centre_minus_half)
  have n: "(3828059683264921 / 4503599627370496 :: real) \<noteq> 7656119366529843 / 9007199254740992"
    "(1351079888211149 / 4503599627370496 :: real) \<noteq> 5404319552844595 / 18014398509481984"
    by simp_all
  have sp: "rnd (2589569785738035 / 2251799813685248 - 3828059683264921 / 4503599627370496)
       = 1351079888211149 / 4503599627370496"
    by (simp add: rnd_span)
  from d g c sp n show ?thesis by blast
qed

end
